theory Spec2Isabelle
  imports Main "HOL-Library.Word"
begin

unbundle bit_operations_syntax

section \<open>The preprocessor state\<close>

text \<open>
  \<^verbatim>\<open>compiler.h\<close> is a sequence of preprocessor directives. It is embedded as a function on
  the state of the preprocessor: the table of macros, the diagnostics emitted so far and the
  names of the \<^verbatim>\<open>#define\<close> directives executed so far, in order.

  A preprocessing token is its spelling. A macro is either object-like or function-like
  (parameter names, whether it ends in \<^verbatim>\<open>...\<close>, replacement list). An object-like macro
  whose replacement list is one integer constant is kept as \<open>Value\<close> with the value of the
  constant: this is what the compilers predefine as their identity symbols, and what an
  \<^verbatim>\<open>#if\<close> can evaluate.
\<close>

type_synonym token = string

datatype macro =
    Value int
  | Object "token list"
  | Function "string list" bool "token list"

datatype pp_error = Bad_condition string

record pp_state =
  macros :: "string \<rightharpoonup> macro"
  diags :: "string list"
  defined_log :: "string list"

definition is_defined :: "pp_state \<Rightarrow> string \<Rightarrow> bool" where
  "is_defined s x = (case macros s x of None \<Rightarrow> False | Some m \<Rightarrow> True)"

text \<open>\<^verbatim>\<open>#define x m\<close>: the new definition replaces an older one of the same name.\<close>

definition define_macro :: "string \<Rightarrow> macro \<Rightarrow> pp_state \<Rightarrow> pp_state" where
  "define_macro x m s = s\<lparr>macros := (macros s)(x \<mapsto> m), defined_log := defined_log s @ [x]\<rparr>"

fun define_all :: "(string \<times> macro) list \<Rightarrow> pp_state \<Rightarrow> pp_state" where
  "define_all [] s = s"
| "define_all ((x, m) # ds) s = define_all ds (define_macro x m s)"

text \<open>\<^verbatim>\<open>#warning text\<close>\<close>

definition warning :: "string \<Rightarrow> pp_state \<Rightarrow> pp_state" where
  "warning txt s = s\<lparr>diags := diags s @ [txt]\<rparr>"

text \<open>
  The value of an identifier in an \<^verbatim>\<open>#if\<close> expression: an identifier that is not a macro
  is 0, and so is the name of a function-like macro without arguments (it is not expanded);
  an object-like macro that is not an integer constant makes the directive ill-formed.
\<close>

definition pp_value :: "pp_state \<Rightarrow> string \<Rightarrow> pp_error + int" where
  "pp_value s x =
     (case macros s x of
        None \<Rightarrow> Inr 0
      | Some (Value n) \<Rightarrow> Inr n
      | Some (Object ts) \<Rightarrow> Inl (Bad_condition x)
      | Some (Function ps v b) \<Rightarrow> Inr 0)"

section \<open>Macro invocation\<close>

fun intercalate :: "'a list \<Rightarrow> 'a list list \<Rightarrow> 'a list" where
  "intercalate sep [] = []"
| "intercalate sep [x] = x"
| "intercalate sep (x # y # zs) = x @ sep @ intercalate sep (y # zs)"

text \<open>
  The arguments of an invocation are token lists (already macro-expanded). A macro without
  \<^verbatim>\<open>...\<close> takes exactly as many arguments as it has parameters; with \<^verbatim>\<open>...\<close> the
  arguments beyond the parameters, commas included, are \<^verbatim>\<open>__VA_ARGS__\<close>.
\<close>

definition bind_args :: "string list \<Rightarrow> bool \<Rightarrow> token list list \<Rightarrow> (string \<rightharpoonup> token list) option" where
  "bind_args ps variadic args =
     (if variadic then
        (if length ps \<le> length args
         then Some ((map_of (zip ps args))
                      (''__VA_ARGS__'' \<mapsto> intercalate ['',''] (drop (length ps) args)))
         else None)
      else if length args = length ps then Some (map_of (zip ps args))
      else None)"

text \<open>
  The \<^verbatim>\<open>#\<close> operator: the spelling of the argument as one string literal (the tokens
  of the argument separated by single spaces).
\<close>

definition stringify :: "token list \<Rightarrow> token" where
  "stringify ts = [CHR 0x22] @ intercalate '' '' ts @ [CHR 0x22]"

text \<open>
  Substitution in the replacement list: every token that is the name of a parameter is
  replaced by the argument, whatever its role in the replacement list; \<^verbatim>\<open>#\<close> before a
  parameter makes a string literal of the argument.
\<close>

fun subst :: "(string \<rightharpoonup> token list) \<Rightarrow> token list \<Rightarrow> token list" where
  "subst b [] = []"
| "subst b [t] = (case b t of Some a \<Rightarrow> a | None \<Rightarrow> [t])"
| "subst b (t # p # ts) =
     (case (if t = ''#'' then b p else None) of
        Some a \<Rightarrow> stringify a # subst b ts
      | None \<Rightarrow> (case b t of Some a \<Rightarrow> a | None \<Rightarrow> [t]) @ subst b (p # ts))"

definition invoke :: "pp_state \<Rightarrow> string \<Rightarrow> token list list \<Rightarrow> token list option" where
  "invoke s f args =
     (case macros s f of
        Some (Function ps v body) \<Rightarrow> map_option (\<lambda>b. subst b body) (bind_args ps v args)
      | _ \<Rightarrow> None)"

section \<open>The dialects of \<^verbatim>\<open>compiler.h\<close>\<close>

datatype dialect =
  SDCC | Keil | Raisonance | IAR | Tasking | HiTech | Crossware | Wickenhaeuser | Default

definition sfrbit_params :: "string list" where
  "sfrbit_params = [''name'', ''addr'', ''bit7'', ''bit6'', ''bit5'', ''bit4'',
                    ''bit3'', ''bit2'', ''bit1'', ''bit0'']"

text \<open>Lines 75 to 87.\<close>

definition sdcc_defs :: "(string \<times> macro) list" where
  "sdcc_defs =
    [(''VECT'', Function [''num'', ''addr''] False [''num'']),
     (''SBIT'', Function [''name'', ''addr'', ''bit''] False
        [''__sbit'', ''__at'', ''('', ''addr'', ''+'', ''bit'', '')'', ''name'']),
     (''SFR'', Function [''name'', ''addr''] False
        [''__sfr'', ''__at'', ''('', ''addr'', '')'', ''name'']),
     (''SFRBIT'', Function sfrbit_params False []),
     (''SFRX'', Function [''name'', ''addr''] False
        [''__xdata'', ''volatile'', ''unsigned'', ''char'', ''__at'', ''('', ''addr'', '')'',
         ''name'']),
     (''SFR16'', Function [''name'', ''addr''] False
        [''__sfr16'', ''__at'', ''('', ''('', ''('', ''addr'', ''+'', ''1U'', '')'', ''<<'', ''8'',
         '')'', ''|'', ''addr'', '')'', ''name'']),
     (''SFR16E'', Function [''name'', ''fulladdr''] False
        [''__sfr16'', ''__at'', ''('', ''fulladdr'', '')'', ''name'']),
     (''SFR32'', Function [''name'', ''addr''] False
        [''__sfr32'', ''__at'', ''('',
         ''('', ''('', ''addr'', ''+'', ''3UL'', '')'', ''<<'', ''24'', '')'', ''|'',
         ''('', ''('', ''addr'', ''+'', ''2UL'', '')'', ''<<'', ''16'', '')'', ''|'',
         ''('', ''('', ''addr'', ''+'', ''1UL'', '')'', ''<<'', ''8'', '')'', ''|'',
         ''addr'', '')'', ''name'']),
     (''SFR32E'', Function [''name'', ''fulladdr''] False
        [''__sfr32'', ''__at'', ''('', ''fulladdr'', '')'', ''name'']),
     (''ASM'', Function [] True [''__VA_ARGS__'']),
     (''__asm_begin'', Object [''__asm'']),
     (''__asm_end'', Object [''__endasm''])]"

text \<open>Lines 92 to 104.\<close>

definition keil_defs :: "(string \<times> macro) list" where
  "keil_defs =
    [(''VECT'', Function [''num'', ''addr''] False [''num'']),
     (''SBIT'', Function [''name'', ''addr'', ''bit''] False
        [''sbit'', ''name'', ''='', ''addr'', ''^'', ''bit'']),
     (''SFR'', Function [''name'', ''addr''] False [''sfr'', ''name'', ''='', ''addr'']),
     (''SFRBIT'', Function sfrbit_params False []),
     (''SFRX'', Function [''name'', ''addr''] False
        [''volatile'', ''unsigned'', ''char'', ''xdata'', ''name'', ''_at_'', ''addr'']),
     (''SFR16'', Function [''name'', ''addr''] False [''sfr16'', ''name'', ''='', ''addr'']),
     (''SFR16E'', Function [''name'', ''fulladdr''] False []),
     (''SFR32'', Function [''name'', ''fulladdr''] False []),
     (''SFR32E'', Function [''name'', ''fulladdr''] False []),
     (''ASM'', Function [] True [''__VA_ARGS__'']),
     (''__asm_begin'', Object [''__asm'', ''{'']),
     (''__asm_end'', Object [''}''])]"

text \<open>Lines 109 to 118.\<close>

definition raisonance_defs :: "(string \<times> macro) list" where
  "raisonance_defs =
    [(''VECT'', Function [''num'', ''addr''] False [''num'']),
     (''SBIT'', Function [''name'', ''addr'', ''bit''] False
        [''at'', ''('', ''addr'', ''+'', ''bit'', '')'', ''sbit'', ''name'']),
     (''SFR'', Function [''name'', ''addr''] False [''sfr'', ''at'', ''addr'', ''name'']),
     (''SFRBIT'', Function sfrbit_params False []),
     (''SFRX'', Function [''name'', ''addr''] False
        [''xdata'', ''at'', ''addr'', ''volatile'', ''unsigned'', ''char'', ''name'']),
     (''SFR16'', Function [''name'', ''addr''] False [''sfr16'', ''at'', ''addr'', ''name'']),
     (''SFR16E'', Function [''name'', ''fulladdr''] False []),
     (''SFR32'', Function [''name'', ''fulladdr''] False []),
     (''SFR32E'', Function [''name'', ''fulladdr''] False [])]"

text \<open>Lines 123 to 150.\<close>

definition iar_defs :: "(string \<times> macro) list" where
  "iar_defs =
    [(''__SFRBIT_IN_USE__'', Object []),
     (''VECT'', Function [''num'', ''addr''] False [''addr'']),
     (''SBIT'', Function [''name'', ''addr'', ''bit''] False []),
     (''SFR'', Function [''name'', ''addr''] False
        [''__sfr'', ''__no_init'', ''volatile'', ''unsigned'', ''char'', ''name'', ''@'', ''addr'']),
     (''SFRBIT'', Function sfrbit_params False
        [''__sfr'', ''__no_init'', ''volatile'', ''union'',
         ''{'',
           ''unsigned'', ''char'', ''name'', '';'',
           ''struct'', ''{'',
             ''unsigned'', ''char'', ''bit0'', '':'', ''1'', '';'',
             ''unsigned'', ''char'', ''bit1'', '':'', ''1'', '';'',
             ''unsigned'', ''char'', ''bit2'', '':'', ''1'', '';'',
             ''unsigned'', ''char'', ''bit3'', '':'', ''1'', '';'',
             ''unsigned'', ''char'', ''bit4'', '':'', ''1'', '';'',
             ''unsigned'', ''char'', ''bit5'', '':'', ''1'', '';'',
             ''unsigned'', ''char'', ''bit6'', '':'', ''1'', '';'',
             ''unsigned'', ''char'', ''bit7'', '':'', ''1'', '';'',
           ''}'', '';'',
         ''}'', ''@'', ''addr'', '';'']),
     (''SFRX'', Function [''name'', ''addr''] False
        [''__xdata'', ''__no_init'', ''volatile'', ''unsigned'', ''char'', ''name'', ''@'',
         ''addr'']),
     (''SFR16'', Function [''name'', ''addr''] False
        [''__sfr'', ''__no_init'', ''volatile'', ''unsigned'', ''int'', ''name'', ''@'', ''addr'']),
     (''SFR16E'', Function [''name'', ''fulladdr''] False []),
     (''SFR32'', Function [''name'', ''fulladdr''] False
        [''__sfr'', ''__no_init'', ''volatile'', ''unsigned'', ''long'', ''name'', ''@'', ''addr'']),
     (''SFR32E'', Function [''name'', ''fulladdr''] False []),
     (''ASM'', Function [] True [''asm'', ''('', ''#'', ''__VA_ARGS__'', '')'', '';'']),
     (''__asm_begin'', Object []),
     (''__asm_end'', Object [])]"

text \<open>
  Lines 155 to 168. The definition of \<^verbatim>\<open>SFR16\<close> depends on \<^verbatim>\<open>#if _CC51 > 71\<close>
  (lines 161 to 165), evaluated after the first five definitions.
\<close>

definition tasking_head :: "(string \<times> macro) list" where
  "tasking_head =
    [(''VECT'', Function [''num'', ''addr''] False [''num'']),
     (''SBIT'', Function [''name'', ''addr'', ''bit''] False
        [''_sfrbit'', ''name'', ''_at'', ''('', ''addr'', ''+'', ''bit'', '')'']),
     (''SFR'', Function [''name'', ''addr''] False
        [''_sfrbyte'', ''name'', ''_at'', ''('', ''addr'', '')'']),
     (''SFRBIT'', Function sfrbit_params False []),
     (''SFRX'', Function [''name'', ''addr''] False
        [''_xdat'', ''volatile'', ''unsigned'', ''char'', ''name'', ''_at'', ''('', ''addr'', '')''])]"

definition tasking_sfr16 :: "bool \<Rightarrow> macro" where
  "tasking_sfr16 newer =
     (if newer
      then Function [''name'', ''addr''] False
             [''_sfrword'', ''_little'', ''name'', ''_at'', ''('', ''addr'', '')'']
      else Function [''name'', ''addr''] False [])"

definition tasking_tail :: "(string \<times> macro) list" where
  "tasking_tail =
    [(''SFR16E'', Function [''name'', ''fulladdr''] False []),
     (''SFR32'', Function [''name'', ''fulladdr''] False []),
     (''SFR32E'', Function [''name'', ''fulladdr''] False [])]"

definition tasking_group :: "pp_state \<Rightarrow> pp_error + pp_state" where
  "tasking_group s =
     (let s1 = define_all tasking_head s in
      case pp_value s1 ''_CC51'' of
        Inl e \<Rightarrow> Inl e
      | Inr v \<Rightarrow> Inr (define_all tasking_tail (define_macro ''SFR16'' (tasking_sfr16 (71 < v)) s1)))"

text \<open>Lines 173 to 182.\<close>

definition hitech_defs :: "(string \<times> macro) list" where
  "hitech_defs =
    [(''VECT'', Function [''num'', ''addr''] False [''addr'']),
     (''SBIT'', Function [''name'', ''addr'', ''bit''] False
        [''volatile'', ''bit'', ''name'', ''@'', ''('', ''addr'', ''+'', ''bit'', '')'']),
     (''SFR'', Function [''name'', ''addr''] False
        [''volatile'', ''unsigned'', ''char'', ''name'', ''@'', ''addr'']),
     (''SFRBIT'', Function sfrbit_params False []),
     (''SFRX'', Function [''name'', ''addr''] False
        [''volatile'', ''far'', ''unsigned'', ''char'', ''name'', ''@'', ''addr'']),
     (''SFR16'', Function [''name'', ''addr''] False []),
     (''SFR16E'', Function [''name'', ''fulladdr''] False []),
     (''SFR32'', Function [''name'', ''fulladdr''] False []),
     (''SFR32E'', Function [''name'', ''fulladdr''] False [])]"

text \<open>Lines 187 to 196.\<close>

definition crossware_defs :: "(string \<times> macro) list" where
  "crossware_defs =
    [(''VECT'', Function [''num'', ''addr''] False [''num'']),
     (''SBIT'', Function [''name'', ''addr'', ''bit''] False
        [''_sfrbit'', ''name'', ''='', ''('', ''addr'', ''+'', ''bit'', '')'']),
     (''SFR'', Function [''name'', ''addr''] False [''_sfr'', ''name'', ''='', ''addr'']),
     (''SFRBIT'', Function sfrbit_params False []),
     (''SFRX'', Function [''name'', ''addr''] False
        [''volatile'', ''unsigned'', ''char'', ''_xdata'', ''name'', ''_at'', ''addr'']),
     (''SFR16'', Function [''name'', ''addr''] False [''_sfrword'', ''name'', ''='', ''addr'']),
     (''SFR16E'', Function [''name'', ''fulladdr''] False []),
     (''SFR32'', Function [''name'', ''fulladdr''] False []),
     (''SFR32E'', Function [''name'', ''fulladdr''] False [])]"

text \<open>Lines 201 to 210.\<close>

definition wickenhaeuser_defs :: "(string \<times> macro) list" where
  "wickenhaeuser_defs =
    [(''VECT'', Function [''num'', ''addr''] False [''addr'']),
     (''SBIT'', Function [''name'', ''addr'', ''bit''] False
        [''unsigned'', ''char'', ''bit'', ''name'', ''@'', ''('', ''addr'', ''+'', ''bit'', '')'']),
     (''SFR'', Function [''name'', ''addr''] False
        [''near'', ''unsigned'', ''char'', ''name'', ''@'', ''addr'']),
     (''SFRBIT'', Function sfrbit_params False []),
     (''SFRX'', Function [''name'', ''addr''] False
        [''xdata'', ''volatile'', ''unsigned'', ''char'', ''name'', ''@'', ''addr'']),
     (''SFR16'', Function [''name'', ''addr''] False []),
     (''SFR16E'', Function [''name'', ''fulladdr''] False []),
     (''SFR32'', Function [''name'', ''fulladdr''] False []),
     (''SFR32E'', Function [''name'', ''fulladdr''] False [])]"

text \<open>Lines 217 to 225; the \<^verbatim>\<open>#warning\<close> of line 216 is in \<open>dialect_group\<close>.\<close>

definition default_defs :: "(string \<times> macro) list" where
  "default_defs =
    [(''VECT'', Function [''num'', ''addr''] False [''num'']),
     (''SBIT'', Function [''name'', ''addr'', ''bit''] False [''volatile'', ''bool'', ''name'']),
     (''SFR'', Function [''name'', ''addr''] False
        [''volatile'', ''unsigned'', ''char'', ''name'']),
     (''SFRBIT'', Function sfrbit_params False [''name'']),
     (''SFRX'', Function [''name'', ''addr''] False
        [''volatile'', ''unsigned'', ''char'', ''name'']),
     (''SFR16'', Function [''name'', ''addr''] False
        [''volatile'', ''unsigned'', ''short'', ''name'']),
     (''SFR16E'', Function [''name'', ''fulladdr''] False
        [''volatile'', ''unsigned'', ''short'', ''name'']),
     (''SFR32'', Function [''name'', ''fulladdr''] False
        [''volatile'', ''unsigned'', ''long'', ''name'']),
     (''SFR32E'', Function [''name'', ''fulladdr''] False
        [''volatile'', ''unsigned'', ''long'', ''name''])]"

section \<open>The header\<close>

text \<open>
  The chain \<^verbatim>\<open>#if defined SDCC || defined __SDCC\<close> ... \<^verbatim>\<open>#elif defined __UC__\<close> ...
  \<^verbatim>\<open>#else\<close> of lines 75 to 227: the first condition that holds chooses the group. The
  condition of line 123 is \<^verbatim>\<open>#elif __IAR_SYSTEMS_ICC__\<close>, the value of the symbol, not
  \<^verbatim>\<open>defined\<close>; it is evaluated only when the three conditions before it are false.
\<close>

definition select_dialect :: "pp_state \<Rightarrow> pp_error + dialect" where
  "select_dialect s =
     (if is_defined s ''SDCC'' \<or> is_defined s ''__SDCC'' then Inr SDCC
      else if is_defined s ''__CX51__'' then Inr Keil
      else if is_defined s ''__RC51__'' then Inr Raisonance
      else case pp_value s ''__IAR_SYSTEMS_ICC__'' of
        Inl e \<Rightarrow> Inl e
      | Inr v \<Rightarrow>
          if v \<noteq> 0 then Inr IAR
          else if is_defined s ''_CC51'' then Inr Tasking
          else if is_defined s ''HI_TECH_C'' then Inr HiTech
          else if is_defined s ''_XC51_VER'' then Inr Crossware
          else if is_defined s ''__UC__'' then Inr Wickenhaeuser
          else Inr Default)"

fun dialect_group :: "dialect \<Rightarrow> pp_state \<Rightarrow> pp_error + pp_state" where
  "dialect_group SDCC s = Inr (define_all sdcc_defs s)"
| "dialect_group Keil s = Inr (define_all keil_defs s)"
| "dialect_group Raisonance s = Inr (define_all raisonance_defs s)"
| "dialect_group IAR s = Inr (define_all iar_defs s)"
| "dialect_group Tasking s = tasking_group s"
| "dialect_group HiTech s = Inr (define_all hitech_defs s)"
| "dialect_group Crossware s = Inr (define_all crossware_defs s)"
| "dialect_group Wickenhaeuser s = Inr (define_all wickenhaeuser_defs s)"
| "dialect_group Default s = Inr (define_all default_defs (warning ''unrecognized compiler'' s))"

text \<open>
  The whole header, lines 69 to 229: the include guard \<^verbatim>\<open>#ifndef COMPILER_H\<close>,
  \<^verbatim>\<open>#define COMPILER_H\<close>, then the chain.
\<close>

definition compiler_h :: "pp_state \<Rightarrow> pp_error + pp_state" where
  "compiler_h s =
     (if is_defined s ''COMPILER_H'' then Inr s
      else let s1 = define_macro ''COMPILER_H'' (Object []) s in
        case select_dialect s1 of
          Inl e \<Rightarrow> Inl e
        | Inr d \<Rightarrow> dialect_group d s1)"

text \<open>Including the header \<open>n\<close> times in a row; the first error stops the unit.\<close>

fun include_times :: "nat \<Rightarrow> pp_state \<Rightarrow> pp_error + pp_state" where
  "include_times 0 s = Inr s"
| "include_times (Suc n) s =
     (case compiler_h s of Inl e \<Rightarrow> Inl e | Inr s1 \<Rightarrow> include_times n s1)"

section \<open>The start of a translation unit\<close>

text \<open>
  A compiler predefines its identity symbols before the first line of the unit. An
  assignment gives each identity symbol no definition or an integer value; the unit starts
  with these macros and no others.
\<close>

definition identity_symbols :: "string list" where
  "identity_symbols = [''SDCC'', ''__SDCC'', ''__CX51__'', ''__RC51__'', ''__IAR_SYSTEMS_ICC__'',
                       ''_CC51'', ''HI_TECH_C'', ''_XC51_VER'', ''__UC__'']"

definition initial :: "(string \<rightharpoonup> int) \<Rightarrow> pp_state" where
  "initial env =
     \<lparr>macros = (\<lambda>x. if x \<in> set identity_symbols then map_option Value (env x) else None),
      diags = [], defined_log = []\<rparr>"

section \<open>Descriptors\<close>

text \<open>
  The definitions one branch of the chain makes, in the order of the file. For Tasking the
  argument says whether \<^verbatim>\<open>_CC51 > 71\<close> holds.
\<close>

fun descriptor :: "dialect \<Rightarrow> bool \<Rightarrow> (string \<times> macro) list" where
  "descriptor SDCC newer = sdcc_defs"
| "descriptor Keil newer = keil_defs"
| "descriptor Raisonance newer = raisonance_defs"
| "descriptor IAR newer = iar_defs"
| "descriptor Tasking newer = tasking_head @ [(''SFR16'', tasking_sfr16 newer)] @ tasking_tail"
| "descriptor HiTech newer = hitech_defs"
| "descriptor Crossware newer = crossware_defs"
| "descriptor Wickenhaeuser newer = wickenhaeuser_defs"
| "descriptor Default newer = default_defs"

definition cc51_newer :: "(string \<rightharpoonup> int) \<Rightarrow> bool" where
  "cc51_newer env = (case env ''_CC51'' of None \<Rightarrow> False | Some v \<Rightarrow> 71 < v)"

text \<open>
  The selection as the specification words it: the branches in their fixed order, each with
  the condition of its directive, and the first branch whose condition holds.
\<close>

definition branch_order :: "dialect list" where
  "branch_order =
     [SDCC, Keil, Raisonance, IAR, Tasking, HiTech, Crossware, Wickenhaeuser, Default]"

definition has :: "(string \<rightharpoonup> int) \<Rightarrow> string \<Rightarrow> bool" where
  "has env x = (case env x of None \<Rightarrow> False | Some v \<Rightarrow> True)"

fun branch_condition :: "(string \<rightharpoonup> int) \<Rightarrow> dialect \<Rightarrow> bool" where
  "branch_condition env SDCC = (has env ''SDCC'' \<or> has env ''__SDCC'')"
| "branch_condition env Keil = has env ''__CX51__''"
| "branch_condition env Raisonance = has env ''__RC51__''"
| "branch_condition env IAR =
     (case env ''__IAR_SYSTEMS_ICC__'' of None \<Rightarrow> False | Some v \<Rightarrow> v \<noteq> 0)"
| "branch_condition env Tasking = has env ''_CC51''"
| "branch_condition env HiTech = has env ''HI_TECH_C''"
| "branch_condition env Crossware = has env ''_XC51_VER''"
| "branch_condition env Wickenhaeuser = has env ''__UC__''"
| "branch_condition env Default = True"

definition first_match :: "(string \<rightharpoonup> int) \<Rightarrow> dialect" where
  "first_match env =
     (case find (branch_condition env) branch_order of Some d \<Rightarrow> d | None \<Rightarrow> Default)"

text \<open>
  The unit after the header, as the specification words it: the guard, then the entries of
  the one selected descriptor and of no other, after the diagnostic when the descriptor is
  the default.
\<close>

definition selected_unit :: "(string \<rightharpoonup> int) \<Rightarrow> pp_state" where
  "selected_unit env =
     define_all (descriptor (first_match env) (cc51_newer env))
       ((if first_match env = Default then warning ''unrecognized compiler'' else id)
          (define_macro ''COMPILER_H'' (Object []) (initial env)))"

section \<open>What a unit sees\<close>

text \<open>
  A unit compiled by a compiler with the identity assignment \<open>env\<close> includes the header
  and then invokes the macro \<open>f\<close> with the arguments \<open>args\<close>, or asks whether the name
  \<open>x\<close> is a macro.
\<close>

definition expansion :: "(string \<rightharpoonup> int) \<Rightarrow> string \<Rightarrow> token list list \<Rightarrow> pp_error + token list option" where
  "expansion env f args =
     (case compiler_h (initial env) of Inl e \<Rightarrow> Inl e | Inr s \<Rightarrow> Inr (invoke s f args))"

definition provides :: "(string \<rightharpoonup> int) \<Rightarrow> string \<Rightarrow> pp_error + bool" where
  "provides env x =
     (case compiler_h (initial env) of Inl e \<Rightarrow> Inl e | Inr s \<Rightarrow> Inr (is_defined s x))"

definition diagnostics :: "(string \<rightharpoonup> int) \<Rightarrow> pp_error + string list" where
  "diagnostics env =
     (case compiler_h (initial env) of Inl e \<Rightarrow> Inl e | Inr s \<Rightarrow> Inr (diags s))"

text \<open>
  A declaration that starts with the qualifier \<^verbatim>\<open>volatile\<close>, as those of lines 218 to
  225 do.
\<close>

definition volatile_declaration :: "token list \<Rightarrow> bool" where
  "volatile_declaration ts = (case ts of [] \<Rightarrow> False | t # r \<Rightarrow> t = ''volatile'')"

section \<open>The address expressions inside the replacement lists\<close>

text \<open>
  The operand of \<^verbatim>\<open>__at\<close> in the SDCC definition of \<^verbatim>\<open>SFR16\<close> (line 81) is
  \<^verbatim>\<open>((addr+1U)<<8) | addr\<close>: with \<^verbatim>\<open>1U\<close> the arithmetic is that of
  \<^verbatim>\<open>unsigned int\<close>, 16 bits on the 8051. In \<^verbatim>\<open>SFR32\<close> (line 83) the constants are
  \<^verbatim>\<open>unsigned long\<close>, 32 bits, and \<^verbatim>\<open>|\<close> associates to the left.
\<close>

definition sdcc_sfr16_at :: "16 word \<Rightarrow> 16 word" where
  "sdcc_sfr16_at addr = (push_bit 8 (addr + 1)) OR addr"

definition sdcc_sfr32_at :: "32 word \<Rightarrow> 32 word" where
  "sdcc_sfr32_at addr =
     ((push_bit 24 (addr + 3) OR push_bit 16 (addr + 2)) OR push_bit 8 (addr + 1)) OR addr"

text \<open>
  The operand of an SDCC \<^verbatim>\<open>__sfr16\<close> or \<^verbatim>\<open>__sfr32\<close> packs one address per byte of
  the register: byte \<open>i\<close> of the operand is the address of byte \<open>i\<close> of the register
  (the examples of lines 51 and 55: \<^verbatim>\<open>0x8C8A\<close> is lsb at \<^verbatim>\<open>0x8A\<close>, msb at
  \<^verbatim>\<open>0x8C\<close>). The other compilers take one address, that of a register of 2 or 4 bytes
  at adjacent addresses in little-endian format (lines 30, 31 and 49: \<^verbatim>\<open>0xCC\<close> is lsb
  at \<^verbatim>\<open>0xCC\<close>, msb at \<^verbatim>\<open>0xCD\<close>). Both lists start with the least significant byte.
\<close>

definition packed_bytes :: "nat \<Rightarrow> nat \<Rightarrow> nat list" where
  "packed_bytes n v = map (\<lambda>i. v div 256 ^ i mod 256) [0..<n]"

definition adjacent_bytes :: "nat \<Rightarrow> nat \<Rightarrow> nat list" where
  "adjacent_bytes n base = map (\<lambda>i. base + i) [0..<n]"

text \<open>
  The byte addresses that \<^verbatim>\<open>SFR16(name, addr)\<close> binds in each dialect, read off the
  replacement lists of lines 81, 98, 115, 144, 162, 164, 179, 193, 207 and 222: a packed
  operand under SDCC, the address itself under Keil, Raisonance, IAR, Tasking above version
  71 and Crossware, no declaration under older Tasking, Hi-Tech and Wickenhaeuser, and a
  variable without an address in the default.
\<close>

fun sfr16_binding :: "dialect \<Rightarrow> bool \<Rightarrow> nat \<Rightarrow> nat list option" where
  "sfr16_binding SDCC newer addr = Some (packed_bytes 2 (unat (sdcc_sfr16_at (of_nat addr))))"
| "sfr16_binding Keil newer addr = Some (adjacent_bytes 2 addr)"
| "sfr16_binding Raisonance newer addr = Some (adjacent_bytes 2 addr)"
| "sfr16_binding IAR newer addr = Some (adjacent_bytes 2 addr)"
| "sfr16_binding Tasking newer addr = (if newer then Some (adjacent_bytes 2 addr) else None)"
| "sfr16_binding HiTech newer addr = None"
| "sfr16_binding Crossware newer addr = Some (adjacent_bytes 2 addr)"
| "sfr16_binding Wickenhaeuser newer addr = None"
| "sfr16_binding Default newer addr = None"

text \<open>
  The bit address in the definitions of \<^verbatim>\<open>SBIT\<close>: \<^verbatim>\<open>addr+bit\<close> (lines 77, 111, 157,
  175, 189 and 203) in \<^verbatim>\<open>int\<close>, 16 bits, and \<^verbatim>\<open>addr^bit\<close> under Keil (line 94),
  taken here as the operator of C. A bit address of the 8051 names bit \<open>b mod 8\<close> of the
  register at \<open>b - b mod 8\<close>.
\<close>

definition sbit_at :: "16 word \<Rightarrow> 16 word \<Rightarrow> 16 word" where
  "sbit_at addr pos = addr + pos"

definition keil_sbit_at :: "16 word \<Rightarrow> 16 word \<Rightarrow> 16 word" where
  "keil_sbit_at addr pos = addr XOR pos"

definition bit_of_address :: "nat \<Rightarrow> nat \<times> nat" where
  "bit_of_address b = (b - b mod 8, b mod 8)"

section \<open>The effect of the header on a fresh unit\<close>

lemma macros_define_all: "macros (define_all ds s) = macros s ++ map_of (rev ds)"
  by (induction ds arbitrary: s) (auto simp: define_macro_def)

lemma diags_define_all: "diags (define_all ds s) = diags s"
  by (induction ds arbitrary: s) (auto simp: define_macro_def)

lemma log_define_all: "defined_log (define_all ds s) = defined_log s @ map fst ds"
  by (induction ds arbitrary: s) (auto simp: define_macro_def)

lemma define_all_append: "define_all (xs @ ys) s = define_all ys (define_all xs s)"
  by (induction xs arbitrary: s) auto

lemma macros_guarded_initial:
  "x \<in> set identity_symbols \<Longrightarrow>
   macros (define_macro ''COMPILER_H'' (Object []) (initial env)) x = map_option Value (env x)"
  by (auto simp: define_macro_def initial_def identity_symbols_def)

lemma is_defined_guarded_initial:
  "x \<in> set identity_symbols \<Longrightarrow>
   is_defined (define_macro ''COMPILER_H'' (Object []) (initial env)) x = has env x"
  by (simp add: is_defined_def has_def macros_guarded_initial split: option.splits)

lemma pp_value_guarded_initial:
  "x \<in> set identity_symbols \<Longrightarrow>
   pp_value (define_macro ''COMPILER_H'' (Object []) (initial env)) x =
     Inr (case env x of None \<Rightarrow> 0 | Some v \<Rightarrow> v)"
  by (simp add: pp_value_def macros_guarded_initial split: option.splits)

lemma select_initial:
  "select_dialect (define_macro ''COMPILER_H'' (Object []) (initial env)) = Inr (first_match env)"
proof -
  have ids: "''SDCC'' \<in> set identity_symbols" "''__SDCC'' \<in> set identity_symbols"
    "''__CX51__'' \<in> set identity_symbols" "''__RC51__'' \<in> set identity_symbols"
    "''__IAR_SYSTEMS_ICC__'' \<in> set identity_symbols" "''_CC51'' \<in> set identity_symbols"
    "''HI_TECH_C'' \<in> set identity_symbols" "''_XC51_VER'' \<in> set identity_symbols"
    "''__UC__'' \<in> set identity_symbols"
    by (simp_all add: identity_symbols_def)
  show ?thesis
    unfolding select_dialect_def first_match_def branch_order_def
    by (simp add: ids [THEN is_defined_guarded_initial] ids [THEN pp_value_guarded_initial]
        split: option.splits)
qed

lemma first_match_Tasking: "first_match env = Tasking \<Longrightarrow> has env ''_CC51''"
  unfolding first_match_def branch_order_def
  by (simp split: if_splits)

lemma tasking_group_guarded:
  assumes "first_match env = Tasking"
  shows "tasking_group (define_macro ''COMPILER_H'' (Object []) (initial env)) =
         Inr (define_all (descriptor Tasking (cc51_newer env))
               (define_macro ''COMPILER_H'' (Object []) (initial env)))"
proof -
  let ?s = "define_macro ''COMPILER_H'' (Object []) (initial env)"
  obtain v where v: "env ''_CC51'' = Some v"
    using first_match_Tasking [OF assms] by (auto simp: has_def split: option.splits)
  have "macros (define_all tasking_head ?s) ''_CC51'' = macros ?s ''_CC51''"
    by (subst macros_define_all) (simp add: tasking_head_def map_add_def)
  also have "\<dots> = Some (Value v)"
    using v by (simp add: macros_guarded_initial identity_symbols_def)
  finally have "pp_value (define_all tasking_head ?s) ''_CC51'' = Inr v"
    by (simp add: pp_value_def)
  then show ?thesis
    using v by (simp add: tasking_group_def cc51_newer_def define_all_append)
qed

lemma compiler_h_initial: "compiler_h (initial env) = Inr (selected_unit env)"
proof -
  have "\<not> is_defined (initial env) ''COMPILER_H''"
    by (simp add: is_defined_def initial_def identity_symbols_def)
  then have "compiler_h (initial env) =
      dialect_group (first_match env) (define_macro ''COMPILER_H'' (Object []) (initial env))"
    by (simp add: compiler_h_def select_initial)
  also have "\<dots> = Inr (selected_unit env)"
    by (cases "first_match env") (simp_all add: selected_unit_def tasking_group_guarded)
  finally show ?thesis .
qed

lemma macros_selected_unit:
  "macros (selected_unit env) =
     ((macros (initial env))(''COMPILER_H'' \<mapsto> Object []))
       ++ map_of (rev (descriptor (first_match env) (cc51_newer env)))"
  by (simp add: selected_unit_def macros_define_all define_macro_def warning_def)

lemma expansion_selected: "expansion env f args = Inr (invoke (selected_unit env) f args)"
  by (simp add: expansion_def compiler_h_initial)

lemma provides_selected: "provides env x = Inr (is_defined (selected_unit env) x)"
  by (simp add: provides_def compiler_h_initial)

lemmas descriptor_defs = sdcc_defs_def keil_defs_def raisonance_defs_def iar_defs_def
  tasking_head_def tasking_sfr16_def tasking_tail_def hitech_defs_def crossware_defs_def
  wickenhaeuser_defs_def default_defs_def sfrbit_params_def

lemma distinct_descriptor: "distinct (map fst (descriptor d newer))"
  by (cases d) (simp_all add: descriptor_defs)

lemma map_of_rev_distinct:
  assumes "distinct (map fst xs)"
  shows "map_of (rev xs) = map_of xs"
  using assms by (intro map_of_inject_set [THEN iffD2]) (simp_all add: rev_map [symmetric])

lemma invoke_selected_unit:
  "invoke (selected_unit env) f args =
     (case map_of (descriptor (first_match env) (cc51_newer env)) f of
        Some (Function ps v body) \<Rightarrow> map_option (\<lambda>b. subst b body) (bind_args ps v args)
      | _ \<Rightarrow> None)"
proof (cases "map_of (descriptor (first_match env) (cc51_newer env)) f")
  case None
  then have "macros (selected_unit env) f = ((macros (initial env))(''COMPILER_H'' \<mapsto> Object [])) f"
    by (simp add: macros_selected_unit map_of_rev_distinct distinct_descriptor map_add_def)
  then show ?thesis
    using None by (auto simp: invoke_def initial_def split: option.splits macro.splits)
next
  case (Some m)
  then have "macros (selected_unit env) f = Some m"
    by (simp add: macros_selected_unit map_of_rev_distinct distinct_descriptor map_add_def)
  then show ?thesis
    using Some by (simp add: invoke_def)
qed

lemma is_defined_selected_unit:
  "is_defined (selected_unit env) x =
     (case map_of (descriptor (first_match env) (cc51_newer env)) x of
        Some m \<Rightarrow> True
      | None \<Rightarrow> is_defined (define_macro ''COMPILER_H'' (Object []) (initial env)) x)"
  by (simp add: is_defined_def macros_selected_unit map_of_rev_distinct distinct_descriptor
      map_add_def define_macro_def split: option.splits)

lemma not_predefined:
  "x \<notin> set identity_symbols \<Longrightarrow> x \<noteq> ''COMPILER_H'' \<Longrightarrow>
   \<not> is_defined (define_macro ''COMPILER_H'' (Object []) (initial env)) x"
  by (simp add: is_defined_def define_macro_def initial_def)

lemma diagnostics_selected:
  "diagnostics env = Inr (if first_match env = Default then [''unrecognized compiler''] else [])"
  unfolding diagnostics_def compiler_h_initial
  by (simp add: selected_unit_def diags_define_all warning_def define_macro_def initial_def)

lemma first_match_none:
  assumes "list_all (\<lambda>x. env x = None) identity_symbols"
  shows "first_match env = Default"
  using assms by (simp add: identity_symbols_def first_match_def branch_order_def has_def)

lemma first_match_sdcc: "first_match [''SDCC'' \<mapsto> 1] = SDCC"
  by (simp add: first_match_def branch_order_def has_def)

lemma first_match_iar: "first_match [''__IAR_SYSTEMS_ICC__'' \<mapsto> 8] = IAR"
  by (simp add: first_match_def branch_order_def has_def)

lemma first_match_tasking: "first_match [''_CC51'' \<mapsto> 72] = Tasking"
  by (simp add: first_match_def branch_order_def has_def)

lemma first_match_hitech: "first_match [''HI_TECH_C'' \<mapsto> 1] = HiTech"
  by (simp add: first_match_def branch_order_def has_def)

lemma first_match_wickenhaeuser: "first_match [''__UC__'' \<mapsto> 1] = Wickenhaeuser"
  by (simp add: first_match_def branch_order_def has_def)

section \<open>Selection of the dialect\<close>

text \<open>
  C5. For every assignment of the identity symbols the chain selects one branch, the first
  in the order SDCC, Keil, Raisonance, IAR, Tasking, Hi-Tech, Crossware, Wickenhaeuser,
  default whose condition holds; the header leaves the unit with the entries of that
  descriptor, and every macro invocation in the unit expands by the replacement list that
  this one descriptor gives the macro (and is no invocation when the descriptor has no
  function-like macro of that name).
\<close>

theorem one_descriptor_first_match:
  "select_dialect (define_macro ''COMPILER_H'' (Object []) (initial env)) = Inr (first_match env)
   \<and> compiler_h (initial env) = Inr (selected_unit env)
   \<and> expansion env f args =
       Inr (case map_of (descriptor (first_match env) (cc51_newer env)) f of
              Some (Function ps v body) \<Rightarrow> map_option (\<lambda>b. subst b body) (bind_args ps v args)
            | _ \<Rightarrow> None)"
proof (intro conjI)
  show "select_dialect (define_macro ''COMPILER_H'' (Object []) (initial env)) =
        Inr (first_match env)"
    by (rule select_initial)
  show "compiler_h (initial env) = Inr (selected_unit env)"
    by (rule compiler_h_initial)
  then have "expansion env f args = Inr (invoke (selected_unit env) f args)"
    by (simp add: expansion_def)
  then show "expansion env f args =
       Inr (case map_of (descriptor (first_match env) (cc51_newer env)) f of
              Some (Function ps v body) \<Rightarrow> map_option (\<lambda>b. subst b body) (bind_args ps v args)
            | _ \<Rightarrow> None)"
    by (simp only: invoke_selected_unit)
qed

text \<open>
  C3, as the header has it. If no identity symbol is defined, the default dialect is
  selected and the warning is emitted; \<^verbatim>\<open>SBIT\<close>, \<^verbatim>\<open>SFR\<close>, \<^verbatim>\<open>SFRX\<close>,
  \<^verbatim>\<open>SFR16\<close>, \<^verbatim>\<open>SFR16E\<close>, \<^verbatim>\<open>SFR32\<close> and \<^verbatim>\<open>SFR32E\<close> expand to
  \<^verbatim>\<open>volatile\<close>, a type and the name, without the address or bit arguments. The
  specification says so of every macro of the interface, but \<^verbatim>\<open>VECT(1, 0x0B)\<close> expands
  to \<^verbatim>\<open>1\<close>, which is no declaration.
\<close>

theorem default_vect_is_no_declaration:
  "expansion Map.empty ''VECT'' [[''1''], [''0x0B'']] = Inr (Some [''1''])
   \<and> \<not> volatile_declaration [''1'']"
  by (simp add: expansion_selected invoke_selected_unit first_match_def branch_order_def
      has_def descriptor_defs bind_args_def volatile_declaration_def)

text \<open>
  C3, amended. If no identity symbol is defined, the default dialect is selected, the
  warning \<^verbatim>\<open>unrecognized compiler\<close> is emitted, the seven register macros expand to a
  \<^verbatim>\<open>volatile\<close> declaration of the name in which no address or bit argument occurs,
  \<^verbatim>\<open>VECT\<close> expands to its first argument, \<^verbatim>\<open>SFRBIT\<close> to the name alone, and
  \<^verbatim>\<open>ASM\<close>, \<^verbatim>\<open>__asm_begin\<close> and \<^verbatim>\<open>__asm_end\<close> are not defined.
\<close>

theorem unrecognized_compiler_default:
  assumes "list_all (\<lambda>x. env x = None) identity_symbols"
  shows "first_match env = Default
    \<and> diagnostics env = Inr [''unrecognized compiler'']
    \<and> expansion env ''SBIT'' [n, a, b] = Inr (Some ([''volatile'', ''bool''] @ n))
    \<and> expansion env ''SFR'' [n, a] = Inr (Some ([''volatile'', ''unsigned'', ''char''] @ n))
    \<and> expansion env ''SFRX'' [n, a] = Inr (Some ([''volatile'', ''unsigned'', ''char''] @ n))
    \<and> expansion env ''SFR16'' [n, a] = Inr (Some ([''volatile'', ''unsigned'', ''short''] @ n))
    \<and> expansion env ''SFR16E'' [n, a] = Inr (Some ([''volatile'', ''unsigned'', ''short''] @ n))
    \<and> expansion env ''SFR32'' [n, a] = Inr (Some ([''volatile'', ''unsigned'', ''long''] @ n))
    \<and> expansion env ''SFR32E'' [n, a] = Inr (Some ([''volatile'', ''unsigned'', ''long''] @ n))
    \<and> expansion env ''VECT'' [n, a] = Inr (Some n)
    \<and> expansion env ''SFRBIT'' [n, a, b7, b6, b5, b4, b3, b2, b1, b0] = Inr (Some n)
    \<and> provides env ''ASM'' = Inr False
    \<and> provides env ''__asm_begin'' = Inr False
    \<and> provides env ''__asm_end'' = Inr False"
proof -
  have d: "first_match env = Default"
    using assms by (rule first_match_none)
  show ?thesis
    by (simp add: d diagnostics_selected expansion_selected invoke_selected_unit
        provides_selected is_defined_selected_unit not_predefined identity_symbols_def
        descriptor_defs bind_args_def)
qed

text \<open>The same at the empty assignment, which defines no identity symbol.\<close>

theorem unrecognized_compiler_default_witness:
  "list_all (\<lambda>x. (Map.empty :: string \<rightharpoonup> int) x = None) identity_symbols
   \<and> first_match Map.empty = Default
   \<and> diagnostics Map.empty = Inr [''unrecognized compiler'']
   \<and> expansion Map.empty ''SBIT'' [[''P0_1''], [''0x80''], [''1'']] =
       Inr (Some [''volatile'', ''bool'', ''P0_1''])
   \<and> expansion Map.empty ''SFR16'' [[''TMR2''], [''0xCC'']] =
       Inr (Some [''volatile'', ''unsigned'', ''short'', ''TMR2''])
   \<and> provides Map.empty ''ASM'' = Inr False"
proof -
  have h: "list_all (\<lambda>x. (Map.empty :: string \<rightharpoonup> int) x = None) identity_symbols"
    by (simp add: identity_symbols_def)
  show ?thesis
    using h unrecognized_compiler_default [OF h, of "[''P0_1'']" "[''0x80'']" "[''1'']"]
      unrecognized_compiler_default [OF h, of "[''TMR2'']" "[''0xCC'']"]
    by simp
qed

section \<open>The entry points\<close>

text \<open>
  C6, as the header has it. The specification says that every dialect defines every entry
  point, \<^verbatim>\<open>ASM\<close> and the two delimiters included. The Raisonance branch (lines 109 to
  118) defines no \<^verbatim>\<open>ASM\<close>.
\<close>

theorem raisonance_has_no_asm:
  "provides [''__RC51__'' \<mapsto> 1] ''ASM'' = Inr False"
  by (simp add: provides_selected is_defined_selected_unit first_match_def branch_order_def
      has_def descriptor_defs not_predefined identity_symbols_def)

text \<open>
  C6, amended. Every dialect defines \<^verbatim>\<open>VECT\<close>, \<^verbatim>\<open>SBIT\<close>, \<^verbatim>\<open>SFR\<close>,
  \<^verbatim>\<open>SFRBIT\<close>, \<^verbatim>\<open>SFRX\<close>, \<^verbatim>\<open>SFR16\<close>, \<^verbatim>\<open>SFR16E\<close>, \<^verbatim>\<open>SFR32\<close> and
  \<^verbatim>\<open>SFR32E\<close>; \<^verbatim>\<open>ASM\<close>, \<^verbatim>\<open>__asm_begin\<close> and \<^verbatim>\<open>__asm_end\<close> are defined
  under SDCC, Keil and IAR and under no other dialect.
\<close>

theorem entry_points_provided:
  "list_all (\<lambda>x. provides env x = Inr True)
     [''VECT'', ''SBIT'', ''SFR'', ''SFRBIT'', ''SFRX'', ''SFR16'', ''SFR16E'', ''SFR32'',
      ''SFR32E'']
   \<and> list_all (\<lambda>x. provides env x = Inr (first_match env \<in> {SDCC, Keil, IAR}))
     [''ASM'', ''__asm_begin'', ''__asm_end'']"
  by (cases "first_match env")
     (simp_all add: provides_selected is_defined_selected_unit descriptor_defs not_predefined
        identity_symbols_def)

subsection \<open>Interrupt vectors\<close>

text \<open>
  C9. In every dialect \<^verbatim>\<open>VECT(num, addr)\<close> expands to one of its two arguments: to
  \<^verbatim>\<open>num\<close> under SDCC, Keil, Raisonance, Tasking, Crossware and the default, to
  \<^verbatim>\<open>addr\<close> under IAR, Hi-Tech and Wickenhaeuser. The other argument does not occur in
  the expansion, so it has no effect on it.
\<close>

theorem vect_yields_one_argument:
  "expansion env ''VECT'' [num, addr] =
     Inr (Some (case first_match env of
                  SDCC \<Rightarrow> num | Keil \<Rightarrow> num | Raisonance \<Rightarrow> num | Tasking \<Rightarrow> num
                | Crossware \<Rightarrow> num | Default \<Rightarrow> num
                | IAR \<Rightarrow> addr | HiTech \<Rightarrow> addr | Wickenhaeuser \<Rightarrow> addr))"
  by (cases "first_match env")
     (simp_all add: expansion_selected invoke_def macros_selected_unit descriptor_defs
        bind_args_def)

subsection \<open>Registers with named bits\<close>

text \<open>
  C8, as the header has it. The specification says that outside IAR, the default included,
  \<^verbatim>\<open>SFRBIT\<close> expands to a placeholder that does nothing and declares nothing. In the
  default dialect (line 220) the expansion is not empty: it leaves the name in the text of
  the unit.
\<close>

theorem default_sfrbit_leaves_name:
  "expansion Map.empty ''SFRBIT''
     [[''P0''], [''0x80''], [''P0_7''], [''P0_6''], [''P0_5''], [''P0_4''], [''P0_3''],
      [''P0_2''], [''P0_1''], [''P0_0'']] = Inr (Some [''P0''])
   \<and> [''P0''] \<noteq> ([] :: token list)"
  by (simp add: expansion_selected invoke_selected_unit first_match_def branch_order_def
      has_def descriptor_defs bind_args_def)

text \<open>
  C8, amended. Under IAR \<^verbatim>\<open>SFRBIT(name, addr, bit7, ..., bit0)\<close> expands to a volatile
  union at \<^verbatim>\<open>addr\<close> of an 8-bit \<^verbatim>\<open>name\<close> and a structure of eight one-bit fields,
  \<^verbatim>\<open>bit0\<close> first; under the seven other vendors it expands to nothing; in the default
  dialect it expands to the name alone, without type, address or bit names.
\<close>

theorem sfrbit_by_dialect:
  "expansion env ''SFRBIT'' [n, a, b7, b6, b5, b4, b3, b2, b1, b0] =
     Inr (Some (case first_match env of
        IAR \<Rightarrow>
          [''__sfr'', ''__no_init'', ''volatile'', ''union'', ''{'', ''unsigned'', ''char'']
          @ n @ ['';'', ''struct'', ''{'', ''unsigned'', ''char'']
          @ b0 @ ['':'', ''1'', '';'', ''unsigned'', ''char'']
          @ b1 @ ['':'', ''1'', '';'', ''unsigned'', ''char'']
          @ b2 @ ['':'', ''1'', '';'', ''unsigned'', ''char'']
          @ b3 @ ['':'', ''1'', '';'', ''unsigned'', ''char'']
          @ b4 @ ['':'', ''1'', '';'', ''unsigned'', ''char'']
          @ b5 @ ['':'', ''1'', '';'', ''unsigned'', ''char'']
          @ b6 @ ['':'', ''1'', '';'', ''unsigned'', ''char'']
          @ b7 @ ['':'', ''1'', '';'', ''}'', '';'', ''}'', ''@''] @ a @ ['';'']
      | Default \<Rightarrow> n
      | _ \<Rightarrow> []))"
  by (cases "first_match env")
     (simp_all add: expansion_selected invoke_selected_unit descriptor_defs bind_args_def)

section \<open>Registers of 16 and 32 bits\<close>

lemma and_multiple:
  fixes x lo :: nat
  assumes "2 ^ k dvd x" and "lo < 2 ^ k"
  shows "x AND lo = 0"
proof (rule bit_eqI)
  fix n
  from assms(1) obtain hi where x: "x = push_bit k hi"
    by (auto simp: push_bit_eq_mult dvd_def mult.commute)
  have lo: "take_bit k lo = lo"
    using assms(2) by (rule take_bit_nat_eq_self)
  have "bit lo n \<longleftrightarrow> n < k \<and> bit lo n"
    by (subst lo [symmetric]) (simp add: bit_take_bit_iff)
  then show "bit (x AND lo) n = bit (0::nat) n"
    by (auto simp: x bit_and_iff bit_push_bit_iff)
qed

lemma or_multiple:
  fixes x lo :: nat
  assumes "2 ^ k dvd x" and "lo < 2 ^ k"
  shows "x OR lo = x + lo"
  using and_multiple [OF assms] by (simp add: disjunctive_add_eq_or)

lemma xor_multiple:
  fixes x lo :: nat
  assumes "2 ^ k dvd x" and "lo < 2 ^ k"
  shows "x XOR lo = x + lo"
  using and_multiple [OF assms] by (simp add: disjunctive_add_eq_xor)

lemma unat_sdcc_sfr16_at:
  assumes "addr \<le> 0xFE"
  shows "unat (sdcc_sfr16_at (of_nat addr)) = (addr + 1) * 256 + addr"
proof -
  have a: "unat (of_nat addr :: 16 word) = addr"
    using assms by (simp add: unat_of_nat)
  have "unat (of_nat addr + 1 :: 16 word) = addr + 1"
    using assms by (simp add: unat_word_ariths a)
  then have "unat (push_bit 8 (of_nat addr + 1 :: 16 word)) = take_bit 16 (push_bit 8 (addr + 1))"
    by (simp only: unsigned_push_bit_eq len_bit0 len_num1) simp
  also have "\<dots> = push_bit 8 (addr + 1)"
    using assms by (intro take_bit_nat_eq_self) (simp add: push_bit_eq_mult)
  finally have "unat (push_bit 8 (of_nat addr + 1 :: 16 word)) = push_bit 8 (addr + 1)" .
  then have "unat (sdcc_sfr16_at (of_nat addr)) = push_bit 8 (addr + 1) OR addr"
    by (simp add: sdcc_sfr16_at_def unsigned_or_eq a)
  also have "\<dots> = push_bit 8 (addr + 1) + addr"
    using assms by (intro or_multiple [where k = 8]) (simp_all add: push_bit_eq_mult)
  finally show ?thesis
    by (simp add: push_bit_eq_mult)
qed

lemma upt_2: "[0..<2] = [0, 1 :: nat]"
  by (simp add: numeral_2_eq_2)

lemma packed_bytes_sfr16:
  assumes "addr \<le> 0xFE"
  shows "packed_bytes 2 (unat (sdcc_sfr16_at (of_nat addr))) = [addr, addr + 1]"
proof -
  have "((addr + 1) * 256 + addr) mod 256 = addr"
    using assms by (simp add: mod_mult_self3 [of "addr + 1" 256 addr, simplified] del: mult_Suc)
  moreover have  "((addr + 1) * 256 + addr) div 256 = addr + 1"
    using assms by (simp del: mult_Suc)
  ultimately show ?thesis
    using assms by (simp only: unat_sdcc_sfr16_at packed_bytes_def upt_2) simp
qed

lemma sfr16_no_overlap:
  assumes "addr \<le> 0xFE"
  shows "push_bit 8 (of_nat addr + 1 :: 16 word) AND of_nat addr = 0"
proof (rule bit_eqI)
  fix n
  have lo: "take_bit 8 addr = addr"
    using assms by (intro take_bit_nat_eq_self) simp
  have "bit (of_nat addr :: 16 word) n \<longleftrightarrow> n < 8 \<and> bit (of_nat addr :: 16 word) n"
    by (subst (1) lo [symmetric]) (auto simp: bit_simps)
  then show "bit (push_bit 8 (of_nat addr + 1 :: 16 word) AND of_nat addr) n = bit (0 :: 16 word) n"
    by (auto simp: bit_and_iff bit_push_bit_iff)
qed

lemma adjacent_bytes_2: "adjacent_bytes 2 addr = [addr, addr + 1]"
  by (simp add: adjacent_bytes_def upt_2)

lemma sfr16_binding_adjacent:
  assumes "addr \<le> 0xFE"
    and "d \<in> {SDCC, Keil, Raisonance, IAR, Crossware} \<or> d = Tasking \<and> newer"
  shows "sfr16_binding d newer addr = Some [addr, addr + 1]"
  using assms by (cases d) (simp_all add: packed_bytes_sfr16 adjacent_bytes_2)

lemma sfr16_expansion:
  "expansion env ''SFR16'' [n, a] =
     Inr (Some (case first_match env of
        SDCC \<Rightarrow> [''__sfr16'', ''__at'', ''('', ''('', ''(''] @ a
                 @ [''+'', ''1U'', '')'', ''<<'', ''8'', '')'', ''|''] @ a @ ['')''] @ n
      | Keil \<Rightarrow> [''sfr16''] @ n @ [''=''] @ a
      | Raisonance \<Rightarrow> [''sfr16'', ''at''] @ a @ n
      | IAR \<Rightarrow> [''__sfr'', ''__no_init'', ''volatile'', ''unsigned'', ''int''] @ n
                 @ [''@''] @ a
      | Tasking \<Rightarrow> (if cc51_newer env
                     then [''_sfrword'', ''_little''] @ n @ [''_at'', ''(''] @ a @ ['')'']
                     else [])
      | HiTech \<Rightarrow> []
      | Crossware \<Rightarrow> [''_sfrword''] @ n @ [''=''] @ a
      | Wickenhaeuser \<Rightarrow> []
      | Default \<Rightarrow> [''volatile'', ''unsigned'', ''short''] @ n))"
  by (cases "first_match env")
     (simp_all add: expansion_selected invoke_selected_unit descriptor_defs bind_args_def)

text \<open>
  C1. In every dialect that declares a 16-bit register (SDCC, Keil, Raisonance, IAR,
  Tasking with \<^verbatim>\<open>_CC51 > 71\<close>, Crossware) and for every address up to \<^verbatim>\<open>0xFE\<close>,
  \<^verbatim>\<open>SFR16(name, addr)\<close> binds the low byte at \<open>addr\<close> and the high byte at
  \<open>addr + 1\<close>. Under SDCC the two parts of the packed operand share no bit. The
  expansions are those of the replacement lists: the packed expression under SDCC, the
  address argument itself in the others.
\<close>

theorem sfr16_binds_adjacent_bytes:
  assumes "addr \<le> 0xFE"
    and "first_match env \<in> {SDCC, Keil, Raisonance, IAR, Crossware}
         \<or> first_match env = Tasking \<and> cc51_newer env"
  shows "sfr16_binding (first_match env) (cc51_newer env) addr = Some [addr, addr + 1]
    \<and> push_bit 8 (of_nat addr + 1 :: 16 word) AND of_nat addr = 0
    \<and> expansion env ''SFR16'' [n, a] =
        Inr (Some (case first_match env of
          SDCC \<Rightarrow> [''__sfr16'', ''__at'', ''('', ''('', ''(''] @ a
                   @ [''+'', ''1U'', '')'', ''<<'', ''8'', '')'', ''|''] @ a @ ['')''] @ n
        | Keil \<Rightarrow> [''sfr16''] @ n @ [''=''] @ a
        | Raisonance \<Rightarrow> [''sfr16'', ''at''] @ a @ n
        | IAR \<Rightarrow> [''__sfr'', ''__no_init'', ''volatile'', ''unsigned'', ''int''] @ n
                   @ [''@''] @ a
        | Tasking \<Rightarrow> (if cc51_newer env
                       then [''_sfrword'', ''_little''] @ n @ [''_at'', ''(''] @ a @ ['')'']
                       else [])
        | HiTech \<Rightarrow> []
        | Crossware \<Rightarrow> [''_sfrword''] @ n @ [''=''] @ a
        | Wickenhaeuser \<Rightarrow> []
        | Default \<Rightarrow> [''volatile'', ''unsigned'', ''short''] @ n))"
  using sfr16_binding_adjacent [OF assms] sfr16_no_overlap [OF assms(1)] sfr16_expansion
  by simp

text \<open>
  The same for Timer 2 at \<^verbatim>\<open>0xCC\<close> (line 49), under SDCC and under Tasking with
  \<^verbatim>\<open>_CC51\<close> defined as 72.
\<close>

theorem sfr16_binds_adjacent_bytes_witness:
  "(0xCC :: nat) \<le> 0xFE
   \<and> first_match [''SDCC'' \<mapsto> 1] = SDCC
   \<and> sfr16_binding SDCC False 0xCC = Some [0xCC, 0xCD]
   \<and> expansion [''SDCC'' \<mapsto> 1] ''SFR16'' [[''TMR2''], [''0xCC'']] =
       Inr (Some [''__sfr16'', ''__at'', ''('', ''('', ''('', ''0xCC'', ''+'', ''1U'', '')'',
                  ''<<'', ''8'', '')'', ''|'', ''0xCC'', '')'', ''TMR2''])
   \<and> first_match [''_CC51'' \<mapsto> 72] = Tasking \<and> cc51_newer [''_CC51'' \<mapsto> 72]
   \<and> sfr16_binding Tasking True 0xCC = Some [0xCC, 0xCD]
   \<and> expansion [''_CC51'' \<mapsto> 72] ''SFR16'' [[''TMR2''], [''0xCC'']] =
       Inr (Some [''_sfrword'', ''_little'', ''TMR2'', ''_at'', ''('', ''0xCC'', '')''])"
proof -
  have a: "(0xCC :: nat) \<le> 0xFE"
    by simp
  have s: "first_match [''SDCC'' \<mapsto> 1] \<in> {SDCC, Keil, Raisonance, IAR, Crossware}
           \<or> first_match [''SDCC'' \<mapsto> 1] = Tasking \<and> cc51_newer [''SDCC'' \<mapsto> 1]"
    by (simp add: first_match_sdcc)
  have n: "cc51_newer [''_CC51'' \<mapsto> 72]" "\<not> cc51_newer [''SDCC'' \<mapsto> 1]"
    by (simp_all add: cc51_newer_def)
  have t: "first_match [''_CC51'' \<mapsto> 72] \<in> {SDCC, Keil, Raisonance, IAR, Crossware}
           \<or> first_match [''_CC51'' \<mapsto> 72] = Tasking \<and> cc51_newer [''_CC51'' \<mapsto> 72]"
    by (simp add: first_match_tasking n)
  show ?thesis
    using sfr16_binds_adjacent_bytes [OF a s, of "[''TMR2'']" "[''0xCC'']"]
      sfr16_binds_adjacent_bytes [OF a t, of "[''TMR2'']" "[''0xCC'']"]
    by (simp add: first_match_sdcc first_match_tasking n)
qed

lemma unat_push_bit_32:
  fixes w :: "32 word"
  assumes "unat w * 2 ^ k < 2 ^ 32"
  shows "unat (push_bit k w) = unat w * 2 ^ k"
proof -
  have "unat (push_bit k w) = take_bit 32 (push_bit k (unat w))"
    by (simp only: unsigned_push_bit_eq len_bit0 len_num1) simp
  also have "\<dots> = push_bit k (unat w)"
    using assms by (intro take_bit_nat_eq_self) (simp add: push_bit_eq_mult)
  finally show ?thesis
    by (simp add: push_bit_eq_mult)
qed

lemma unat_sdcc_sfr32_at:
  assumes "addr \<le> 0xFC"
  shows "unat (sdcc_sfr32_at (of_nat addr)) =
         (addr + 3) * 2 ^ 24 + (addr + 2) * 2 ^ 16 + (addr + 1) * 2 ^ 8 + addr"
proof -
  have a: "unat (of_nat addr :: 32 word) = addr"
    using assms by (simp add: unat_of_nat)
  have a1: "unat (of_nat addr + 1 :: 32 word) = addr + 1"
    and a2: "unat (of_nat addr + 2 :: 32 word) = addr + 2"
    and a3: "unat (of_nat addr + 3 :: 32 word) = addr + 3"
    using assms by (simp_all add: unat_word_ariths a)
  have p1: "unat (push_bit 8 (of_nat addr + 1 :: 32 word)) = (addr + 1) * 2 ^ 8"
    using assms by (subst unat_push_bit_32) (simp_all add: a1)
  have p2: "unat (push_bit 16 (of_nat addr + 2 :: 32 word)) = (addr + 2) * 2 ^ 16"
    using assms by (subst unat_push_bit_32) (simp_all add: a2)
  have p3: "unat (push_bit 24 (of_nat addr + 3 :: 32 word)) = (addr + 3) * 2 ^ 24"
    using assms by (subst unat_push_bit_32) (simp_all add: a3)
  let ?A = "(addr + 3) * 2 ^ 24" and ?B = "(addr + 2) * 2 ^ 16" and ?C = "(addr + 1) * 2 ^ 8"
  have "unat (sdcc_sfr32_at (of_nat addr)) = ((?A OR ?B) OR ?C) OR addr"
    by (simp only: sdcc_sfr32_at_def unsigned_or_eq p1 p2 p3 a)
  also have "?A OR ?B = ?A + ?B"
    using assms by (intro or_multiple [where k = 24]) simp_all
  also have "(?A + ?B) OR ?C = ?A + ?B + ?C"
    using assms by (intro or_multiple [where k = 16]) simp_all
  also have "(?A + ?B + ?C) OR addr = ?A + ?B + ?C + addr"
    using assms by (intro or_multiple [where k = 8]) simp_all
  finally show ?thesis .
qed

lemma upt_4: "[0..<4] = [0, 1, 2, 3 :: nat]"
  by (simp add: eval_nat_numeral)

lemma byte_split:
  fixes lo q :: nat
  assumes "lo < 256"
  shows "(lo + 256 * q) mod 256 = lo" "(lo + 256 * q) div 256 = q"
  using assms by simp_all

lemma packed_literal_bytes:
  fixes addr :: nat
  assumes "addr \<le> 0xFC"
  shows "((addr + 3) * 2 ^ 24 + (addr + 2) * 2 ^ 16 + (addr + 1) * 2 ^ 8 + addr) mod 256 = addr"
    "((addr + 3) * 2 ^ 24 + (addr + 2) * 2 ^ 16 + (addr + 1) * 2 ^ 8 + addr) div 256 mod 256
       = addr + 1"
    "((addr + 3) * 2 ^ 24 + (addr + 2) * 2 ^ 16 + (addr + 1) * 2 ^ 8 + addr) div 65536 mod 256
       = addr + 2"
    "((addr + 3) * 2 ^ 24 + (addr + 2) * 2 ^ 16 + (addr + 1) * 2 ^ 8 + addr) div 16777216
       mod 256 = addr + 3"
proof -
  let ?q3 = "addr + 3"
  let ?q2 = "(addr + 2) + 256 * ?q3"
  let ?q1 = "(addr + 1) + 256 * ?q2"
  let ?v = "(addr + 3) * 2 ^ 24 + (addr + 2) * 2 ^ 16 + (addr + 1) * 2 ^ 8 + addr"
  have v: "?v = addr + 256 * ?q1"
    by simp
  have d1: "?v div 256 = ?q1"
    unfolding v using assms by (intro byte_split) simp
  have d2: "?q1 div 256 = ?q2"
    using assms by (intro byte_split) simp
  have d3: "?q2 div 256 = ?q3"
    using assms by (intro byte_split) simp
  show "?v mod 256 = addr"
    unfolding v using assms by (intro byte_split) simp
  show "?v div 256 mod 256 = addr + 1"
    unfolding d1 using assms by (intro byte_split) simp
  have "?v div 65536 = ?v div 256 div 256"
    by (simp only: div_mult2_eq [symmetric]) simp
  then show "?v div 65536 mod 256 = addr + 2"
    unfolding d1 d2 using assms by (simp only:) (intro byte_split, simp)
  have "?v div 16777216 = ?v div 256 div 256 div 256"
    by (simp only: div_mult2_eq [symmetric]) simp
  then show "?v div 16777216 mod 256 = addr + 3"
    unfolding d1 d2 d3 using assms by simp
qed

lemma packed_bytes_sfr32:
  assumes "addr \<le> 0xFC"
  shows "packed_bytes 4 (unat (sdcc_sfr32_at (of_nat addr))) =
         [addr, addr + 1, addr + 2, addr + 3]"
proof -
  have "packed_bytes 4 v =
        [v mod 256, v div 256 mod 256, v div 65536 mod 256, v div 16777216 mod 256]" for v
    by (simp add: packed_bytes_def upt_4)
  then show ?thesis
    by (simp only: unat_sdcc_sfr32_at [OF assms] packed_literal_bytes [OF assms])
qed

lemma sfr16e_expansion:
  "expansion env ''SFR16E'' [n, a] =
     Inr (Some (case first_match env of
        SDCC \<Rightarrow> [''__sfr16'', ''__at'', ''(''] @ a @ ['')''] @ n
      | Default \<Rightarrow> [''volatile'', ''unsigned'', ''short''] @ n
      | _ \<Rightarrow> []))"
  by (cases "first_match env")
     (simp_all add: expansion_selected invoke_selected_unit descriptor_defs bind_args_def)

lemma sfr32e_expansion:
  "expansion env ''SFR32E'' [n, a] =
     Inr (Some (case first_match env of
        SDCC \<Rightarrow> [''__sfr32'', ''__at'', ''(''] @ a @ ['')''] @ n
      | Default \<Rightarrow> [''volatile'', ''unsigned'', ''long''] @ n
      | _ \<Rightarrow> []))"
  by (cases "first_match env")
     (simp_all add: expansion_selected invoke_selected_unit descriptor_defs bind_args_def)

lemma sfr32_expansion:
  "expansion env ''SFR32'' [n, a] =
     Inr (Some (case first_match env of
        SDCC \<Rightarrow>
          [''__sfr32'', ''__at'', ''('', ''('', ''(''] @ a
          @ [''+'', ''3UL'', '')'', ''<<'', ''24'', '')'', ''|'', ''('', ''(''] @ a
          @ [''+'', ''2UL'', '')'', ''<<'', ''16'', '')'', ''|'', ''('', ''(''] @ a
          @ [''+'', ''1UL'', '')'', ''<<'', ''8'', '')'', ''|''] @ a @ ['')''] @ n
      | IAR \<Rightarrow>
          [''__sfr'', ''__no_init'', ''volatile'', ''unsigned'', ''long''] @ n
          @ [''@'', ''addr'']
      | Default \<Rightarrow> [''volatile'', ''unsigned'', ''long''] @ n
      | _ \<Rightarrow> []))"
  by (cases "first_match env")
     (simp_all add: expansion_selected invoke_selected_unit descriptor_defs bind_args_def)

text \<open>
  C2. The statement holds of SDCC (\<open>packed_bytes_sfr32\<close>) and fails under IAR: line 146 names
  the parameter \<^verbatim>\<open>fulladdr\<close> and writes \<^verbatim>\<open>addr\<close> in the replacement list, so
  \<^verbatim>\<open>SFR32(MAC0ACC, 0x93)\<close> and \<^verbatim>\<open>SFR32(MAC0ACC, 0x94)\<close> expand to the same text, which
  places the register at the identifier \<^verbatim>\<open>addr\<close> and not at the argument.
\<close>

theorem iar_sfr32_ignores_address:
  "expansion [''__IAR_SYSTEMS_ICC__'' \<mapsto> 8] ''SFR32'' [[''MAC0ACC''], [''0x93'']] =
     Inr (Some [''__sfr'', ''__no_init'', ''volatile'', ''unsigned'', ''long'', ''MAC0ACC'',
                ''@'', ''addr''])
   \<and> expansion [''__IAR_SYSTEMS_ICC__'' \<mapsto> 8] ''SFR32'' [[''MAC0ACC''], [''0x94'']] =
     Inr (Some [''__sfr'', ''__no_init'', ''volatile'', ''unsigned'', ''long'', ''MAC0ACC'',
                ''@'', ''addr''])"
  by (simp add: sfr32_expansion first_match_iar)

section \<open>Entry points a vendor does not support\<close>

text \<open>
  C4. The entries that the header marks as not supported or not used expand to nothing
  (\<open>sfr16_expansion\<close>, \<open>sfr16e_expansion\<close>, \<open>sfr32_expansion\<close>, \<open>sfr32e_expansion\<close>).
  The \<^verbatim>\<open>SFR32\<close> of IAR, which the specification counts among them, does not: for all arguments
  its expansion is a declaration that ends in \<^verbatim>\<open>@ addr\<close>, and \<^verbatim>\<open>addr\<close> is no
  parameter of the macro.
\<close>

theorem iar_sfr32_names_unbound_addr:
  "expansion [''__IAR_SYSTEMS_ICC__'' \<mapsto> 8] ''SFR32'' [n, a] =
     Inr (Some ([''__sfr'', ''__no_init'', ''volatile'', ''unsigned'', ''long''] @ n
                @ [''@'', ''addr'']))
   \<and> map_of iar_defs ''SFR32'' =
     Some (Function [''name'', ''fulladdr''] False
             [''__sfr'', ''__no_init'', ''volatile'', ''unsigned'', ''long'', ''name'', ''@'',
              ''addr''])"
  by (simp add: sfr32_expansion first_match_iar iar_defs_def)

section \<open>Bits\<close>

lemma sbit_at_decodes:
  assumes "8 dvd addr" and "addr \<le> 0xF8" and "pos \<le> 7"
  shows "bit_of_address (unat (sbit_at (of_nat addr) (of_nat pos))) = (addr, pos)"
proof -
  have "unat (sbit_at (of_nat addr) (of_nat pos)) = addr + pos"
    using assms by (simp add: sbit_at_def unat_word_ariths unat_of_nat)
  moreover have "(addr + pos) mod 8 = pos"
    using assms by (auto simp: dvd_def)
  ultimately show ?thesis
    by (simp add: bit_of_address_def)
qed

lemma keil_sbit_at_decodes:
  assumes "8 dvd addr" and "addr \<le> 0xF8" and "pos \<le> 7"
  shows "bit_of_address (unat (keil_sbit_at (of_nat addr) (of_nat pos))) = (addr, pos)"
proof -
  have "unat (keil_sbit_at (of_nat addr) (of_nat pos)) = addr XOR pos"
    using assms by (simp add: keil_sbit_at_def unsigned_xor_eq unat_of_nat)
  also have "addr XOR pos = addr + pos"
    using assms by (intro xor_multiple [where k = 3]) simp_all
  finally show ?thesis
    using sbit_at_decodes [OF assms] assms
    by (simp add: sbit_at_def unat_word_ariths unat_of_nat)
qed

lemma sbit_expansion:
  "expansion env ''SBIT'' [n, a, b] =
     Inr (Some (case first_match env of
        SDCC \<Rightarrow> [''__sbit'', ''__at'', ''(''] @ a @ [''+''] @ b @ ['')''] @ n
      | Keil \<Rightarrow> [''sbit''] @ n @ [''=''] @ a @ [''^''] @ b
      | Raisonance \<Rightarrow> [''at'', ''(''] @ a @ [''+''] @ b @ ['')'', ''sbit''] @ n
      | IAR \<Rightarrow> []
      | Tasking \<Rightarrow> [''_sfrbit''] @ n @ [''_at'', ''(''] @ a @ [''+''] @ b @ ['')'']
      | HiTech \<Rightarrow> [''volatile''] @ b @ n @ [''@'', ''(''] @ a @ [''+''] @ b @ ['')'']
      | Crossware \<Rightarrow> [''_sfrbit''] @ n @ [''='', ''(''] @ a @ [''+''] @ b @ ['')'']
      | Wickenhaeuser \<Rightarrow>
          [''unsigned'', ''char''] @ b @ n @ [''@'', ''(''] @ a @ [''+''] @ b @ ['')'']
      | Default \<Rightarrow> [''volatile'', ''bool''] @ n))"
  by (cases "first_match env")
     (simp_all add: expansion_selected invoke_selected_unit descriptor_defs bind_args_def)

text \<open>
  C7. The bit address is right wherever \<^verbatim>\<open>SBIT\<close> has one (\<open>sbit_at_decodes\<close>,
  \<open>keil_sbit_at_decodes\<close>, \<open>sbit_expansion\<close>). Under Hi-Tech (line 175) and Wickenhaeuser
  (line 203) the replacement list also uses \<^verbatim>\<open>bit\<close> as the type of the declaration, and
  \<^verbatim>\<open>bit\<close> is the third parameter: \<^verbatim>\<open>SBIT(P0_1, 0x80, 1)\<close> expands to
  \<^verbatim>\<open>volatile 1 P0_1 @ (0x80+1)\<close>, where the type is gone.
\<close>

theorem sbit_parameter_captures_bit_type:
  "expansion [''HI_TECH_C'' \<mapsto> 1] ''SBIT'' [[''P0_1''], [''0x80''], [''1'']] =
     Inr (Some [''volatile'', ''1'', ''P0_1'', ''@'', ''('', ''0x80'', ''+'', ''1'', '')''])
   \<and> expansion [''__UC__'' \<mapsto> 1] ''SBIT'' [[''P0_1''], [''0x80''], [''1'']] =
     Inr (Some [''unsigned'', ''char'', ''1'', ''P0_1'', ''@'', ''('', ''0x80'', ''+'', ''1'',
                '')''])"
  by (simp add: sbit_expansion first_match_hitech first_match_wickenhaeuser)

section \<open>The include guard\<close>

lemma is_defined_define_macro: "is_defined s x \<Longrightarrow> is_defined (define_macro y m s) x"
  by (simp add: is_defined_def define_macro_def)

lemma is_defined_define_all: "is_defined s x \<Longrightarrow> is_defined (define_all ds s) x"
  by (induction ds arbitrary: s) (auto simp: is_defined_define_macro)

lemma is_defined_warning: "is_defined (warning t s) x = is_defined s x"
  by (simp add: is_defined_def warning_def)

lemma dialect_group_keeps:
  assumes "dialect_group d s = Inr s'" and "is_defined s x"
  shows "is_defined s' x"
proof (cases d)
  case Tasking
  with assms show ?thesis
    by (auto simp: tasking_group_def Let_def is_defined_define_all is_defined_define_macro
        split: sum.splits)
qed (use assms in \<open>auto simp: is_defined_define_all is_defined_warning\<close>)

lemma compiler_h_sets_guard:
  assumes "compiler_h s = Inr s'"
  shows "is_defined s' ''COMPILER_H''"
proof (cases "is_defined s ''COMPILER_H''")
  case True
  with assms show ?thesis by (simp add: compiler_h_def)
next
  case False
  let ?s1 = "define_macro ''COMPILER_H'' (Object []) s"
  have guard: "is_defined ?s1 ''COMPILER_H''"
    by (simp add: is_defined_def define_macro_def)
  from assms False obtain d where "dialect_group d ?s1 = Inr s'"
    by (auto simp: compiler_h_def Let_def split: sum.splits)
  then show ?thesis
    using guard by (rule dialect_group_keeps)
qed

lemma guard_skips_header: "is_defined s ''COMPILER_H'' \<Longrightarrow> compiler_h s = Inr s"
  by (simp add: compiler_h_def)

lemma include_times_guarded: "is_defined s ''COMPILER_H'' \<Longrightarrow> include_times n s = Inr s"
  by (induction n) (simp_all add: guard_skips_header)

lemma log_selected_unit:
  "defined_log (selected_unit env) =
     ''COMPILER_H'' # map fst (descriptor (first_match env) (cc51_newer env))"
  by (simp add: selected_unit_def log_define_all define_macro_def warning_def initial_def)

lemma distinct_log_selected_unit: "distinct (defined_log (selected_unit env))"
  unfolding log_selected_unit
  by (cases "first_match env") (simp_all add: descriptor_defs)

text \<open>
  C10. Including the header any number of times in a row, at least once, gives the state
  that including it once gives, from any state: after the first inclusion the guard is
  defined and the later ones are skipped. In a fresh unit that state is the selected unit,
  in which no name was defined twice.
\<close>

theorem include_guard_idempotent:
  "include_times (Suc n) s = compiler_h s
   \<and> include_times (Suc n) (initial env) = Inr (selected_unit env)
   \<and> distinct (defined_log (selected_unit env))"
proof (intro conjI)
  show once: "include_times (Suc n) s = compiler_h s" for s
  proof (cases "compiler_h s")
    case (Inl e)
    then show ?thesis by simp
  next
    case (Inr s')
    then have "is_defined s' ''COMPILER_H''"
      by (rule compiler_h_sets_guard)
    then have "include_times n s' = Inr s'"
      by (rule include_times_guarded)
    with Inr show ?thesis by simp
  qed
  show "include_times (Suc n) (initial env) = Inr (selected_unit env)"
    by (simp only: once compiler_h_initial)
  show "distinct (defined_log (selected_unit env))"
    by (rule distinct_log_selected_unit)
qed

end
